theory Spec2Isabelle
  imports Main
begin

section \<open>Go error values\<close>

text \<open>
  Every error value the modelled packages create or receive.  A sentinel
  (\<^verbatim>\<open>errors.New\<close>) is a constructor; \<^verbatim>\<open>fmt.Errorf("msg: %w", err)\<close> is
  \<open>Wrapf msg err\<close>, with the constant text of the format for \<open>msg\<close> (the
  values formatted into it are left out); the joined errors of the JWT
  library are \<open>Joined\<close>.
  Sentinels of different packages are different values even when their
  messages agree: \<^verbatim>\<open>auth.ErrTokenExpired\<close> is not \<^verbatim>\<open>jwt.ErrTokenExpired\<close>.
\<close>

datatype err =
    ErrNotFound                   \<comment> \<open>repositories: "record not found"\<close>
  | ErrDuplicateKey               \<comment> \<open>repositories: "duplicate key"\<close>
  | ErrEmailTaken                 \<comment> \<open>services: "email already taken"\<close>
  | ErrInvalidCredentials         \<comment> \<open>services: "invalid email or password"\<close>
  | ErrInvalidRefreshToken        \<comment> \<open>services: "invalid refresh token"\<close>
  | ErrTokenExpired               \<comment> \<open>auth: "token has expired"\<close>
  | ErrTokenInvalid               \<comment> \<open>auth: "token is invalid"\<close>
  | jwt_ErrTokenExpired           \<comment> \<open>jwt library: "token is expired"\<close>
  | jwt_ErrTokenNotValidYet
  | jwt_ErrTokenMalformed
  | jwt_ErrTokenUnverifiable
  | jwt_ErrTokenSignatureInvalid
  | jwt_ErrTokenInvalidClaims
  | jwt_ErrInvalidKeyType
  | gorm_ErrRecordNotFound
  | gorm_Failure string           \<comment> \<open>any other error of the database driver\<close>
  | s3_Failure string             \<comment> \<open>an error of the object store's API\<close>
  | bcrypt_Failure string         \<comment> \<open>an error of the bcrypt package\<close>
  | Errorf string                 \<comment> \<open>\<^verbatim>\<open>fmt.Errorf\<close> without \<^verbatim>\<open>%w\<close>\<close>
  | Wrapf string err              \<comment> \<open>\<^verbatim>\<open>fmt.Errorf("...: %w", err)\<close>\<close>
  | Joined "err list"

text \<open>\<^verbatim>\<open>errors.Is(err, target)\<close>: the chain of wrapped errors is searched for the target.\<close>

fun errors_Is :: "err \<Rightarrow> err \<Rightarrow> bool" where
  "errors_Is (Wrapf msg e) target = (Wrapf msg e = target \<or> errors_Is e target)"
| "errors_Is (Joined es) target = (Joined es = target \<or> (\<exists>e \<in> set es. errors_Is e target))"
| "errors_Is e target = (e = target)"

text \<open>A Go \<^verbatim>\<open>error\<close> result is \<open>err option\<close>, \<open>None\<close> for \<^verbatim>\<open>nil\<close>.\<close>

definition errors_Is_opt :: "err option \<Rightarrow> err \<Rightarrow> bool" where
  "errors_Is_opt e target = (case e of None \<Rightarrow> False | Some e' \<Rightarrow> errors_Is e' target)"

section \<open>pkg/auth: the token manager\<close>

type_synonym TokenType = string

definition AccessToken :: TokenType where
  "AccessToken = ''access''"

definition RefreshToken :: TokenType where
  "RefreshToken = ''refresh''"

text \<open>
  Instants and durations are integers counting nanoseconds (\<^verbatim>\<open>time.Time\<close> since
  the epoch, \<^verbatim>\<open>time.Duration\<close>).  The registered claims the validator reads are
  kept; a claim that is absent is \<open>None\<close>.
\<close>

record RegisteredClaims =
  ExpiresAt :: "int option"
  NotBefore :: "int option"
  IssuedAt :: "int option"

record Claims = RegisteredClaims +
  UserID :: string
  Role :: string
  TokenType :: TokenType

record Manager =
  secret :: string
  accessTTL :: int
  refreshTTL :: int

definition NewManager :: "string \<Rightarrow> int \<Rightarrow> int \<Rightarrow> Manager" where
  "NewManager secrete accessTTL' refreshTTL' =
     \<lparr>secret = secrete, accessTTL = accessTTL', refreshTTL = refreshTTL'\<rparr>"

subsection \<open>The JWT library (github.com/golang-jwt/jwt/v5), as the manager uses it\<close>

text \<open>
  A compact token has three segments: a header naming the algorithm, the
  claims, and a signature over the first two.  The model keeps the segments
  decoded: \<open>Compact alg claims sig\<close>; any string that does not split and
  decode into three segments is \<open>Malformed\<close>.  A token string is this value
  throughout; where a token is cut out of a larger string (the
  \<^verbatim>\<open>Authorization\<close> header), a function reads the substring as its token.

  HMAC is an ideal message authentication code: the tag \<open>MAC h key alg claims\<close>
  of hash \<open>h\<close> under \<open>key\<close> over the signing input (header and claims)
  determines all four, and no other byte string \<open>Bytes s\<close> is a tag.  What
  HMAC does to a key before use (padding a short key with zero bytes,
  hashing a long one), and with it the keys HMAC itself treats as one, is
  below this model.
\<close>

datatype signature = MAC string string string Claims | Bytes string

datatype token = Malformed string | Compact string Claims signature

datatype SigningMethod = SigningMethodHMAC string | SigningMethodOther string

definition SigningMethodHS256 :: SigningMethod where
  "SigningMethodHS256 = SigningMethodHMAC ''HS256''"

text \<open>The registry of signing methods, by the header's \<^verbatim>\<open>alg\<close>.\<close>

definition GetSigningMethod :: "string \<Rightarrow> SigningMethod option" where
  "GetSigningMethod alg =
     (if alg \<in> set [''HS256'', ''HS384'', ''HS512''] then Some (SigningMethodHMAC alg)
      else if alg \<in> set [''RS256'', ''RS384'', ''RS512'', ''ES256'', ''ES384'', ''ES512'',
                          ''PS256'', ''PS384'', ''PS512'', ''EdDSA'', ''none'']
      then Some (SigningMethodOther alg)
      else None)"

text \<open>
  A token before it is signed (\<^verbatim>\<open>jwt.NewWithClaims\<close>), and after it is parsed;
  \<open>TokenClaims\<close> is its field \<^verbatim>\<open>Claims\<close>.
\<close>

record Token =
  Method :: SigningMethod
  TokenClaims :: Claims
  Valid :: bool

definition NewWithClaims :: "SigningMethod \<Rightarrow> Claims \<Rightarrow> Token" where
  "NewWithClaims method claims = \<lparr>Method = method, TokenClaims = claims, Valid = False\<rparr>"

text \<open>
  \<^verbatim>\<open>Token.SignedString(key)\<close> with a byte-slice key: an HMAC method signs, any
  other method refuses the key type.
\<close>

definition SignedString :: "Token \<Rightarrow> string \<Rightarrow> err + token" where
  "SignedString t key =
     (case Method t of
        SigningMethodHMAC h \<Rightarrow> Inr (Compact h (TokenClaims t) (MAC h key h (TokenClaims t)))
      | SigningMethodOther _ \<Rightarrow> Inl jwt_ErrInvalidKeyType)"

definition Verify :: "SigningMethod \<Rightarrow> string \<Rightarrow> string \<Rightarrow> Claims \<Rightarrow> signature \<Rightarrow> bool" where
  "Verify method key alg claims sg =
     (case method of
        SigningMethodHMAC h \<Rightarrow> sg = MAC h key alg claims
      | SigningMethodOther _ \<Rightarrow> False)"

text \<open>
  \<^verbatim>\<open>jwt.NewNumericDate\<close> truncates to whole seconds.  The validator, with no
  option set, checks \<^verbatim>\<open>exp\<close> (valid while \<^verbatim>\<open>now.Before(exp)\<close>) and \<^verbatim>\<open>nbf\<close>
  (invalid while \<^verbatim>\<open>now.Before(nbf)\<close>), not \<^verbatim>\<open>iat\<close>, and joins what failed.
\<close>

definition second :: int where
  "second = 1000000000"

definition NewNumericDate :: "int \<Rightarrow> int" where
  "NewNumericDate t = (t div second) * second"

definition Validate :: "int \<Rightarrow> Claims \<Rightarrow> err list" where
  "Validate now claims =
     (case ExpiresAt claims of
        None \<Rightarrow> []
      | Some exp \<Rightarrow> if now < exp then [] else [jwt_ErrTokenExpired])
     @ (case NotBefore claims of
        None \<Rightarrow> []
      | Some nbf \<Rightarrow> if now < nbf then [jwt_ErrTokenNotValidYet] else [])"

text \<open>
  \<^verbatim>\<open>jwt.ParseWithClaims\<close>: decode the segments, find the method, ask the key
  function for the key, verify the signature, validate the claims.
\<close>

definition ParseWithClaims ::
    "(SigningMethod \<Rightarrow> string \<Rightarrow> err + string) \<Rightarrow> int \<Rightarrow> token \<Rightarrow> err + Token" where
  "ParseWithClaims keyFunc now tokenStr =
     (case tokenStr of
        Malformed _ \<Rightarrow> Inl (Joined [jwt_ErrTokenMalformed])
      | Compact alg claims sg \<Rightarrow>
          (case GetSigningMethod alg of
             None \<Rightarrow> Inl (Joined [jwt_ErrTokenUnverifiable])
           | Some method \<Rightarrow>
               (case keyFunc method alg of
                  Inl e \<Rightarrow> Inl (Joined [jwt_ErrTokenUnverifiable, e])
                | Inr key \<Rightarrow>
                    if \<not> Verify method key alg claims sg
                    then Inl (Joined [jwt_ErrTokenSignatureInvalid])
                    else (case Validate now claims of
                            [] \<Rightarrow> Inr \<lparr>Method = method, TokenClaims = claims, Valid = True\<rparr>
                          | e # es \<Rightarrow> Inl (Joined [jwt_ErrTokenInvalidClaims, Joined (e # es)])))))"

subsection \<open>Manager.generate and Manager.Parse\<close>

definition generate :: "Manager \<Rightarrow> int \<Rightarrow> string \<Rightarrow> string \<Rightarrow> TokenType \<Rightarrow> int \<Rightarrow> err + token" where
  "generate m now userID role tt ttl =
     (let claims = \<lparr>ExpiresAt = Some (NewNumericDate (now + ttl)),
                    NotBefore = None,
                    IssuedAt = Some (NewNumericDate now),
                    UserID = userID, Role = role, TokenType = tt\<rparr>;
          token = NewWithClaims SigningMethodHS256 claims
      in case SignedString token (secret m) of
           Inl e \<Rightarrow> Inl (Wrapf ''failed to sign token'' e)
         | Inr signed \<Rightarrow> Inr signed)"

definition GenerateAccessToken :: "Manager \<Rightarrow> int \<Rightarrow> string \<Rightarrow> string \<Rightarrow> err + token" where
  "GenerateAccessToken m now userID role = generate m now userID role AccessToken (accessTTL m)"

definition GenerateRefreshToken :: "Manager \<Rightarrow> int \<Rightarrow> string \<Rightarrow> string \<Rightarrow> err + token" where
  "GenerateRefreshToken m now userID role = generate m now userID role RefreshToken (refreshTTL m)"

text \<open>The key function of \<open>Parse\<close>: only an HMAC method is given the secret.\<close>

definition keyFunc :: "Manager \<Rightarrow> SigningMethod \<Rightarrow> string \<Rightarrow> err + string" where
  "keyFunc m method alg =
     (case method of
        SigningMethodHMAC _ \<Rightarrow> Inr (secret m)
      | SigningMethodOther _ \<Rightarrow> Inl (Errorf (''unexpected signing method: '' @ alg)))"

definition Parse :: "Manager \<Rightarrow> int \<Rightarrow> token \<Rightarrow> err + Claims" where
  "Parse m now tokenStr =
     (case ParseWithClaims (keyFunc m) now tokenStr of
        Inl e \<Rightarrow>
          if errors_Is e jwt_ErrTokenExpired then Inl jwt_ErrTokenExpired
          else Inl ErrTokenInvalid
      | Inr token \<Rightarrow>
          if \<not> Valid token then Inl ErrTokenInvalid
          else Inr (TokenClaims token))"

section \<open>internal/utils and the request context\<close>

text \<open>
  The JSON envelope of every endpoint.  The payload of the login endpoint is
  the only success payload the model needs.
\<close>

datatype payload =
    NoData
  | LoginData string string string string token token
      \<comment> \<open>user id, email, username, role; access token, refresh token\<close>

record Response =
  Success :: bool
  Data :: payload
  Error :: string

text \<open>
  What a handler sees and changes of a \<^verbatim>\<open>gin.Context\<close>: the request's headers
  (\<^verbatim>\<open>GetHeader\<close> gives the empty string for an absent header), the keys set
  on the context, the response written (status code and envelope), whether
  the chain was aborted and whether \<^verbatim>\<open>Next\<close> was called.
\<close>

record Context =
  requestHeader :: "string \<Rightarrow> string"
  Keys :: "string \<rightharpoonup> string"
  written :: "(nat \<times> Response) option"
  aborted :: bool
  nextCalled :: bool

definition GetHeader :: "Context \<Rightarrow> string \<Rightarrow> string" where
  "GetHeader c key = requestHeader c key"

definition JSON :: "Context \<Rightarrow> nat \<Rightarrow> Response \<Rightarrow> Context" where
  "JSON c code obj = c\<lparr>written := Some (code, obj)\<rparr>"

definition Abort :: "Context \<Rightarrow> Context" where
  "Abort c = c\<lparr>aborted := True\<rparr>"

definition Next :: "Context \<Rightarrow> Context" where
  "Next c = c\<lparr>nextCalled := True\<rparr>"

definition Set :: "Context \<Rightarrow> string \<Rightarrow> string \<Rightarrow> Context" where
  "Set c key v = c\<lparr>Keys := (Keys c)(key \<mapsto> v)\<rparr>"

definition StatusOK :: nat where
  "StatusOK = 200"

definition StatusBadRequest :: nat where
  "StatusBadRequest = 400"

definition StatusUnauthorized :: nat where
  "StatusUnauthorized = 401"

definition StatusInternalServerError :: nat where
  "StatusInternalServerError = 500"

definition OK :: "Context \<Rightarrow> payload \<Rightarrow> Context" where
  "OK c d = JSON c StatusOK \<lparr>Success = True, Data = d, Error = []\<rparr>"

definition BadRequest :: "Context \<Rightarrow> string \<Rightarrow> Context" where
  "BadRequest c msg = JSON c StatusBadRequest \<lparr>Success = False, Data = NoData, Error = msg\<rparr>"

definition Unauthorized :: "Context \<Rightarrow> string \<Rightarrow> Context" where
  "Unauthorized c msg = JSON c StatusUnauthorized \<lparr>Success = False, Data = NoData, Error = msg\<rparr>"

definition InternalError :: "Context \<Rightarrow> Context" where
  "InternalError c =
     JSON c StatusInternalServerError
       \<lparr>Success = False, Data = NoData, Error = ''internal server error''\<rparr>"

section \<open>internal/middleware: Authenticate\<close>

definition ContextKeyUserID :: string where
  "ContextKeyUserID = ''userID''"

definition ContextKeyRole :: string where
  "ContextKeyRole = ''role''"

text \<open>\<^verbatim>\<open>strings.SplitN(s, " ", 2)\<close>: split at the first space, if there is one.\<close>

definition SplitN2 :: "string \<Rightarrow> string list" where
  "SplitN2 s =
     (if CHR '' '' \<in> set s
      then [takeWhile (\<lambda>c. c \<noteq> CHR '' '') s, tl (dropWhile (\<lambda>c. c \<noteq> CHR '' '') s)]
      else [s])"

text \<open>
  \<^verbatim>\<open>strings.EqualFold\<close> against an ASCII word without \<^verbatim>\<open>k\<close> or \<^verbatim>\<open>s\<close>: only
  the ASCII letters fold onto its letters, so the folding is that of bytes.
\<close>

definition toLower :: "char \<Rightarrow> char" where
  "toLower c =
     (case map_of (zip ''ABCDEFGHIJKLMNOPQRSTUVWXYZ'' ''abcdefghijklmnopqrstuvwxyz'') c of
        None \<Rightarrow> c
      | Some l \<Rightarrow> l)"

definition EqualFold :: "string \<Rightarrow> string \<Rightarrow> bool" where
  "EqualFold s t = (map toLower s = map toLower t)"

text \<open>
  The handler \<open>Authenticate jwtManager\<close> returns.  \<open>wire\<close> reads a string as
  the token it spells (its three decoded segments, or \<open>Malformed\<close>), \<open>now\<close> is
  the instant of the check.
\<close>

definition Authenticate :: "Manager \<Rightarrow> (string \<Rightarrow> token) \<Rightarrow> int \<Rightarrow> Context \<Rightarrow> Context" where
  "Authenticate jwtManager wire now c =
     (let header = GetHeader c ''Authorization'' in
      if header = [] then Abort (Unauthorized c ''authorization header required'')
      else
        let parts = SplitN2 header in
        if length parts \<noteq> 2 \<or> \<not> EqualFold (parts ! 0) ''bearer''
        then Abort (Unauthorized c ''invalid authorization header format'')
        else
          (case Parse jwtManager now (wire (parts ! 1)) of
             Inl e \<Rightarrow>
               Abort (if e = ErrTokenExpired then Unauthorized c ''token has expired''
                      else Unauthorized c ''invalid token'')
           | Inr claims \<Rightarrow>
               if TokenType claims \<noteq> AccessToken
               then Abort (Unauthorized c ''invalid token type'')
               else Next (Set (Set c ContextKeyUserID (UserID claims))
                               ContextKeyRole (Role claims))))"

section \<open>internal/models/entities\<close>

text \<open>
  The columns of a row the services read or write; \<^verbatim>\<open>CreatedAt\<close>, \<^verbatim>\<open>UpdatedAt\<close>
  and the associations are left out.  \<open>DeletedAt\<close> is \<open>None\<close> for a row that is not
  soft-deleted.
\<close>

record User =
  ID :: string
  Email :: string
  PasswordHash :: string
  Username :: string
  Role :: string
  DeletedAt :: "int option"

record Attachment =
  ID :: string
  NoteID :: string
  MessageID :: string
  URL :: string
  Name :: string
  Type :: string
  Size :: int
  S3Key :: string
  DeletedAt :: "int option"

text \<open>The zero value of \<^verbatim>\<open>entities.User\<close> (\<^verbatim>\<open>var u entities.User\<close>).\<close>

definition zero_User :: User where
  "zero_User = \<lparr>User.ID = [], User.Email = [], User.PasswordHash = [], User.Username = [],
                 User.Role = [], User.DeletedAt = None\<rparr>"

text \<open>\<^verbatim>\<open>newUUID\<close> fills an empty id with the UUID drawn, here \<open>fresh\<close>.\<close>

definition newUUID :: "string \<Rightarrow> string \<Rightarrow> string" where
  "newUUID fresh i = (if i = [] then fresh else i)"

definition User_BeforeCreate :: "string \<Rightarrow> User \<Rightarrow> User" where
  "User_BeforeCreate fresh u = u\<lparr>User.ID := newUUID fresh (User.ID u)\<rparr>"

definition Attachment_BeforeCreate :: "string \<Rightarrow> Attachment \<Rightarrow> Attachment" where
  "Attachment_BeforeCreate fresh a = a\<lparr>Attachment.ID := newUUID fresh (Attachment.ID a)\<rparr>"

section \<open>The two stores and the calls made on them\<close>

text \<open>
  The relational store holds the rows of the two tables; \<open>failure\<close> is the
  error every statement meets while the store is failing (a lost connection,
  a timeout), \<open>None\<close> while it works.  The object store holds the objects by
  key (body and content type) and may fail on a put and on a delete
  independently of the relational store.
\<close>

record DB =
  users :: "User list"
  attachments :: "Attachment list"
  failure :: "string option"

record S3 =
  objects :: "string \<rightharpoonup> string \<times> string"
  putFailure :: "string option"
  deleteFailure :: "string option"

text \<open>Every call that leaves the process is recorded, with its outcome, in the order made.\<close>

datatype event =
    UserFindByID string
  | UserFindByEmail string
  | UserCreate User "err option"
  | BcryptGenerateFromPassword string int
  | BcryptCompareHashAndPassword string string
  | S3PutObject string "err option"
  | S3DeleteObject string "err option"
  | AttachmentCreate Attachment "err option"

record world =
  db :: DB
  s3 :: S3
  trace :: "event list"

definition record_event :: "world \<Rightarrow> event \<Rightarrow> world" where
  "record_event w e = w\<lparr>trace := trace w @ [e]\<rparr>"

subsection \<open>The ORM (gorm.io/gorm), as the repositories use it\<close>

text \<open>
  \<^verbatim>\<open>db.First(&u, cond)\<close> fills \<open>u\<close> with the first row that is not soft-deleted
  and meets the condition; it leaves \<open>u\<close> as it was, the zero value, and
  answers \<^verbatim>\<open>gorm.ErrRecordNotFound\<close> when there is none, or the store's error
  when the store fails.  The conditions used are on unique columns (the id,
  the email), which at most one row of a table meets; of a list of rows that
  breaks a unique index, the first row listed is taken.
\<close>

definition First_User :: "DB \<Rightarrow> (User \<Rightarrow> bool) \<Rightarrow> User \<times> err option" where
  "First_User d cond =
     (case failure d of
        Some msg \<Rightarrow> (zero_User, Some (gorm_Failure msg))
      | None \<Rightarrow>
          (case find (\<lambda>r. User.DeletedAt r = None \<and> cond r) (users d) of
             None \<Rightarrow> (zero_User, Some gorm_ErrRecordNotFound)
           | Some r \<Rightarrow> (r, None)))"

text \<open>
  \<^verbatim>\<open>db.Create(row)\<close> runs the \<^verbatim>\<open>BeforeCreate\<close> hook and inserts the row; it
  fails, inserting nothing, when the store fails or a unique index (the
  primary key; the email of a user) is violated.
\<close>

definition Create_User :: "DB \<Rightarrow> string \<Rightarrow> User \<Rightarrow> DB \<times> User \<times> err option" where
  "Create_User d fresh u =
     (let u' = User_BeforeCreate fresh u in
      case failure d of
        Some msg \<Rightarrow> (d, u', Some (gorm_Failure msg))
      | None \<Rightarrow>
          if \<exists>r \<in> set (users d). User.ID r = User.ID u' \<or> User.Email r = User.Email u'
          then (d, u', Some (gorm_Failure ''duplicate key value violates unique constraint''))
          else (d\<lparr>users := users d @ [u']\<rparr>, u', None))"

definition Create_Attachment :: "DB \<Rightarrow> string \<Rightarrow> Attachment \<Rightarrow> DB \<times> Attachment \<times> err option" where
  "Create_Attachment d fresh a =
     (let a' = Attachment_BeforeCreate fresh a in
      case failure d of
        Some msg \<Rightarrow> (d, a', Some (gorm_Failure msg))
      | None \<Rightarrow>
          if \<exists>r \<in> set (attachments d). Attachment.ID r = Attachment.ID a'
          then (d, a', Some (gorm_Failure ''duplicate key value violates unique constraint''))
          else (d\<lparr>attachments := attachments d @ [a']\<rparr>, a', None))"

section \<open>internal/repositories\<close>

text \<open>
  A Go result \<^verbatim>\<open>(*entities.User, error)\<close> is a pair of options: the pointer is
  \<open>None\<close> for \<^verbatim>\<open>nil\<close>, the error is \<open>None\<close> for \<^verbatim>\<open>nil\<close>.  The interface
  \<^verbatim>\<open>UserRepository\<close> is the record of its methods (the ones the services
  modelled here call); \<open>Create\<close> is also given the UUID its hook draws and
  returns the row as the hook left it.
\<close>

record UserRepository =
  Create :: "world \<Rightarrow> string \<Rightarrow> User \<Rightarrow> (User \<times> err option) \<times> world"
  FindByID :: "world \<Rightarrow> string \<Rightarrow> (User option \<times> err option) \<times> world"
  FindByEmail :: "world \<Rightarrow> string \<Rightarrow> (User option \<times> err option) \<times> world"

definition userRepo_Create :: "world \<Rightarrow> string \<Rightarrow> User \<Rightarrow> (User \<times> err option) \<times> world" where
  "userRepo_Create w fresh user =
     (case Create_User (db w) fresh user of
        (d, user', e) \<Rightarrow> ((user', e), record_event (w\<lparr>db := d\<rparr>) (UserCreate user' e)))"

definition userRepo_FindByID :: "world \<Rightarrow> string \<Rightarrow> (User option \<times> err option) \<times> world" where
  "userRepo_FindByID w i =
     (case First_User (db w) (\<lambda>r. User.ID r = i) of
        (u, e) \<Rightarrow>
          if errors_Is_opt e gorm_ErrRecordNotFound
          then ((None, Some ErrNotFound), record_event w (UserFindByID i))
          else ((Some u, None), record_event w (UserFindByID i)))"

definition userRepo_FindByEmail :: "world \<Rightarrow> string \<Rightarrow> (User option \<times> err option) \<times> world" where
  "userRepo_FindByEmail w email =
     (case First_User (db w) (\<lambda>r. User.Email r = email) of
        (u, e) \<Rightarrow>
          if errors_Is_opt e gorm_ErrRecordNotFound
          then ((None, Some ErrNotFound), record_event w (UserFindByEmail email))
          else ((Some u, None), record_event w (UserFindByEmail email)))"

text \<open>\<^verbatim>\<open>NewUserRepository\<close>: the GORM-backed implementation of the interface.\<close>

definition NewUserRepository :: UserRepository where
  "NewUserRepository =
     \<lparr>Create = userRepo_Create, FindByID = userRepo_FindByID, FindByEmail = userRepo_FindByEmail\<rparr>"

definition attachmentRepo_Create ::
    "world \<Rightarrow> string \<Rightarrow> Attachment \<Rightarrow> (Attachment \<times> err option) \<times> world" where
  "attachmentRepo_Create w fresh attachment =
     (case Create_Attachment (db w) fresh attachment of
        (d, a', e) \<Rightarrow> ((a', e), record_event (w\<lparr>db := d\<rparr>) (AttachmentCreate a' e)))"

section \<open>The services of users\<close>

text \<open>
  The two functions of \<^verbatim>\<open>golang.org/x/crypto/bcrypt\<close> the service calls are
  parameters: nothing is assumed of them.  \<open>GenerateFromPassword\<close> stands for
  one call, with the salt that call draws.
\<close>

record bcrypt =
  GenerateFromPassword :: "string \<Rightarrow> int \<Rightarrow> err + string"
  CompareHashAndPassword :: "string \<Rightarrow> string \<Rightarrow> err option"

definition bcrypt_GenerateFromPassword ::
    "bcrypt \<Rightarrow> world \<Rightarrow> string \<Rightarrow> int \<Rightarrow> (err + string) \<times> world" where
  "bcrypt_GenerateFromPassword bc w password cost =
     (GenerateFromPassword bc password cost,
      record_event w (BcryptGenerateFromPassword password cost))"

definition bcrypt_CompareHashAndPassword ::
    "bcrypt \<Rightarrow> world \<Rightarrow> string \<Rightarrow> string \<Rightarrow> err option \<times> world" where
  "bcrypt_CompareHashAndPassword bc w hashedPassword password =
     (CompareHashAndPassword bc hashedPassword password,
      record_event w (BcryptCompareHashAndPassword hashedPassword password))"

record RegisterInput =
  Email :: string
  Username :: string
  Password :: string

record LoginInput =
  Email :: string
  Password :: string

record TokenPair =
  accessToken :: token
  refreshToken :: token

record UserService =
  repo :: UserRepository
  jwtManager :: Manager
  bcryptCost :: int

text \<open>
  A call either returns or panics (a nil pointer is dereferenced).  The
  clock is read once for each token generated and once for each token
  parsed: \<open>now i\<close> is the \<open>i\<close>-th reading of a call, from 0.
\<close>

datatype 'a outcome = Return 'a | Panic string

definition nil_dereference :: string where
  "nil_dereference = ''invalid memory address or nil pointer dereference''"

definition issueTokenPair :: "UserService \<Rightarrow> int \<Rightarrow> int \<Rightarrow> string \<Rightarrow> string \<Rightarrow> err + TokenPair" where
  "issueTokenPair s tAccess tRefresh userID role =
     (case GenerateAccessToken (jwtManager s) tAccess userID role of
        Inl e \<Rightarrow> Inl (Wrapf ''generating access token'' e)
      | Inr access \<Rightarrow>
          (case GenerateRefreshToken (jwtManager s) tRefresh userID role of
             Inl e \<Rightarrow> Inl (Wrapf ''generating refresh token'' e)
           | Inr refresh \<Rightarrow> Inr \<lparr>accessToken = access, refreshToken = refresh\<rparr>))"

definition Register ::
    "UserService \<Rightarrow> bcrypt \<Rightarrow> world \<Rightarrow> string \<Rightarrow> RegisterInput \<Rightarrow> (err + User) \<times> world" where
  "Register s bc w fresh inp =
     (case FindByEmail (repo s) w (RegisterInput.Email inp) of
        ((_, None), w1) \<Rightarrow> (Inl ErrEmailTaken, w1)
      | ((_, Some _), w1) \<Rightarrow>
          (case bcrypt_GenerateFromPassword bc w1 (RegisterInput.Password inp) (bcryptCost s) of
             (Inl e, w2) \<Rightarrow> (Inl (Wrapf ''hashing password'' e), w2)
           | (Inr hash, w2) \<Rightarrow>
               (let user = \<lparr>User.ID = [], User.Email = RegisterInput.Email inp,
                            User.PasswordHash = hash, User.Username = RegisterInput.Username inp,
                            User.Role = ''user'', User.DeletedAt = None\<rparr>
                in case Create (repo s) w2 fresh user of
                     ((_, Some e), w3) \<Rightarrow> (Inl (Wrapf ''creating user'' e), w3)
                   | ((user', None), w3) \<Rightarrow> (Inr user', w3))))"

text \<open>
  \<open>Login\<close> from the comparison on (the statements after the guard on the
  lookup's error): \<open>user.PasswordHash\<close> is read whatever the lookup returned.
\<close>

definition Login_compare ::
    "UserService \<Rightarrow> bcrypt \<Rightarrow> (nat \<Rightarrow> int) \<Rightarrow> world \<Rightarrow> LoginInput \<Rightarrow> User option
       \<Rightarrow> (err + User \<times> TokenPair) outcome \<times> world" where
  "Login_compare s bc now w inp user =
     (case user of
        None \<Rightarrow> (Panic nil_dereference, w)
      | Some u \<Rightarrow>
          (case bcrypt_CompareHashAndPassword bc w (User.PasswordHash u) (LoginInput.Password inp) of
             (Some _, w') \<Rightarrow> (Return (Inl ErrInvalidCredentials), w')
           | (None, w') \<Rightarrow>
               (case issueTokenPair s (now 0) (now 1) (User.ID u) (User.Role u) of
                  Inl e \<Rightarrow> (Return (Inl e), w')
                | Inr pair \<Rightarrow> (Return (Inr (u, pair)), w'))))"

definition Login ::
    "UserService \<Rightarrow> bcrypt \<Rightarrow> (nat \<Rightarrow> int) \<Rightarrow> world \<Rightarrow> LoginInput
       \<Rightarrow> (err + User \<times> TokenPair) outcome \<times> world" where
  "Login s bc now w inp =
     (case FindByEmail (repo s) w (LoginInput.Email inp) of
        ((user, None), w1) \<Rightarrow> Login_compare s bc now w1 inp user
      | ((user, Some e), w1) \<Rightarrow>
          if errors_Is e ErrNotFound then (Return (Inl e), w1)
          else Login_compare s bc now w1 inp user)"

definition RefreshTokens ::
    "UserService \<Rightarrow> (nat \<Rightarrow> int) \<Rightarrow> world \<Rightarrow> token \<Rightarrow> (err + TokenPair) outcome \<times> world" where
  "RefreshTokens s now w refreshToken' =
     (case Parse (jwtManager s) (now 0) refreshToken' of
        Inl _ \<Rightarrow> (Return (Inl ErrInvalidRefreshToken), w)
      | Inr claims \<Rightarrow>
          if TokenType claims \<noteq> RefreshToken then (Return (Inl ErrInvalidRefreshToken), w)
          else
            (case FindByEmail (repo s) w (UserID claims) of
               ((_, Some _), w1) \<Rightarrow> (Return (Inl ErrInvalidCredentials), w1)
             | ((None, None), w1) \<Rightarrow> (Panic nil_dereference, w1)
             | ((Some u, None), w1) \<Rightarrow>
                 (case issueTokenPair s (now 1) (now 2) (User.ID u) (User.Role u) of
                    Inl e \<Rightarrow> (Return (Inl e), w1)
                  | Inr pair \<Rightarrow> (Return (Inr pair), w1))))"

section \<open>pkg/storage: the client of the object store\<close>

record Client =
  bucket :: string

record UploadInput =
  Key :: string
  Body :: string
  ContentType :: string
  Size :: int

text \<open>
  \<open>PresignedURL\<close> is the field \<open>AttachmentService.Create\<close> reads of the upload's
  output; \<open>Upload\<close> sets \<open>URL\<close> alone and leaves it at its zero value.
\<close>

record UploadOutput =
  URL :: string
  PresignedURL :: string

text \<open>The two calls of the object store's API: each succeeds or fails as the store decides.\<close>

definition PutObject :: "world \<Rightarrow> string \<Rightarrow> string \<Rightarrow> string \<Rightarrow> err option \<times> world" where
  "PutObject w key body contentType =
     (case putFailure (s3 w) of
        Some msg \<Rightarrow>
          (Some (s3_Failure msg), record_event w (S3PutObject key (Some (s3_Failure msg))))
      | None \<Rightarrow>
          (None, record_event (w\<lparr>s3 := (s3 w)\<lparr>objects := (objects (s3 w))(key \<mapsto> (body, contentType))\<rparr>\<rparr>)
                   (S3PutObject key None)))"

definition DeleteObject :: "world \<Rightarrow> string \<Rightarrow> err option \<times> world" where
  "DeleteObject w key =
     (case deleteFailure (s3 w) of
        Some msg \<Rightarrow>
          (Some (s3_Failure msg), record_event w (S3DeleteObject key (Some (s3_Failure msg))))
      | None \<Rightarrow>
          (None, record_event (w\<lparr>s3 := (s3 w)\<lparr>objects := (objects (s3 w))(key := None)\<rparr>\<rparr>)
                   (S3DeleteObject key None)))"

definition Upload :: "Client \<Rightarrow> world \<Rightarrow> UploadInput \<Rightarrow> (err + UploadOutput) \<times> world" where
  "Upload c w inp =
     (case PutObject w (Key inp) (Body inp) (ContentType inp) of
        (Some e, w') \<Rightarrow> (Inl (Wrapf ''s3 PutObject'' e), w')
      | (None, w') \<Rightarrow>
          (Inr \<lparr>URL = ''https://'' @ bucket c @ ''.s3.amazonaws.com/'' @ Key inp,
                PresignedURL = []\<rparr>, w'))"

definition Delete :: "Client \<Rightarrow> world \<Rightarrow> string \<Rightarrow> err option \<times> world" where
  "Delete c w key =
     (case DeleteObject w key of
        (Some e, w') \<Rightarrow> (Some (Wrapf ''s3 DeleteObject'' e), w')
      | (None, w') \<Rightarrow> (None, w'))"

section \<open>The service of attachments\<close>

record FileHeader =
  Filename :: string
  Size :: int
  Header :: "string \<Rightarrow> string"

record FileUploadInput =
  NoteID :: string
  MessageID :: string
  File :: string
  FileHeader :: FileHeader

record AttachmentService =
  repo :: "world \<Rightarrow> string \<Rightarrow> Attachment \<Rightarrow> (Attachment \<times> err option) \<times> world"
  s3Client :: Client

text \<open>
  \<^verbatim>\<open>filepath.Base\<close>: the last element of a path, trailing slashes removed
  first; \<^verbatim>\<open>"."\<close> for the empty path and \<^verbatim>\<open>"/"\<close> for a path of slashes.
\<close>

definition Base :: "string \<Rightarrow> string" where
  "Base path =
     (if path = [] then ''.''
      else
        let stripped = rev (dropWhile (\<lambda>c. c = CHR ''/'') (rev path));
            last_elem = rev (takeWhile (\<lambda>c. c \<noteq> CHR ''/'') (rev stripped))
        in if last_elem = [] then ''/'' else last_elem)"

text \<open>\<^verbatim>\<open>strings.ReplaceAll\<close> of one byte by one byte.\<close>

definition ReplaceAll :: "string \<Rightarrow> char \<Rightarrow> char \<Rightarrow> string" where
  "ReplaceAll s old new = map (\<lambda>c. if c = old then new else c) s"

text \<open>The verb \<^verbatim>\<open>%d\<close>: an integer in decimal.\<close>

fun digits :: "nat \<Rightarrow> string" where
  "digits n =
     (if n < 10 then [''0123456789'' ! n]
      else digits (n div 10) @ [''0123456789'' ! (n mod 10)])"

declare digits.simps [simp del]

definition FormatInt :: "int \<Rightarrow> string" where
  "FormatInt i = (if i < 0 then ''-'' @ digits (nat (- i)) else digits (nat i))"

definition safeName :: "FileUploadInput \<Rightarrow> string" where
  "safeName inp = ReplaceAll (Base (Filename (FileHeader inp))) (CHR '' '') (CHR ''_'')"

definition s3Key :: "FileUploadInput \<Rightarrow> int \<Rightarrow> string" where
  "s3Key inp unixMilli =
     ''attachments/'' @ NoteID inp @ ''/'' @ FormatInt unixMilli @ ''_'' @ safeName inp"

definition contentType :: "FileUploadInput \<Rightarrow> string" where
  "contentType inp =
     (let ct = Header (FileHeader inp) ''Content-Type''
      in if ct = [] then ''application/octet-stream'' else ct)"

text \<open>
  \<open>AttachmentService.Create\<close>; \<open>unixMilli\<close> is the clock's reading in
  milliseconds, \<open>fresh\<close> the UUID the row's hook draws.
\<close>

definition AttachmentService_Create ::
    "AttachmentService \<Rightarrow> int \<Rightarrow> string \<Rightarrow> world \<Rightarrow> FileUploadInput
       \<Rightarrow> (err + Attachment \<times> string) \<times> world" where
  "AttachmentService_Create s unixMilli fresh w inp =
     (case Upload (s3Client s) w
             \<lparr>Key = s3Key inp unixMilli, Body = File inp, ContentType = contentType inp,
              UploadInput.Size = FileHeader.Size (FileHeader inp)\<rparr> of
        (Inl e, w1) \<Rightarrow> (Inl (Wrapf ''uploading attachment to S3'' e), w1)
      | (Inr uploadOut, w1) \<Rightarrow>
          (let att = \<lparr>Attachment.ID = [], Attachment.NoteID = NoteID inp,
                      Attachment.MessageID = MessageID inp, Attachment.URL = URL uploadOut,
                      Name = Filename (FileHeader inp), Type = contentType inp,
                      Attachment.Size = FileHeader.Size (FileHeader inp),
                      S3Key = s3Key inp unixMilli, Attachment.DeletedAt = None\<rparr>
           in case repo s w1 fresh att of
                ((_, Some e), w2) \<Rightarrow>
                  (case Delete (s3Client s) w2 (s3Key inp unixMilli) of
                     (_, w3) \<Rightarrow> (Inl (Wrapf ''saving attachment metadata'' e), w3))
              | ((att', None), w2) \<Rightarrow> (Inr (att', PresignedURL uploadOut), w2)))"

definition NewAttachmentService ::
    "(world \<Rightarrow> string \<Rightarrow> Attachment \<Rightarrow> (Attachment \<times> err option) \<times> world) \<Rightarrow> Client
       \<Rightarrow> AttachmentService" where
  "NewAttachmentService repo' s3Client' = \<lparr>repo = repo', s3Client = s3Client'\<rparr>"

section \<open>internal/handlers: the login endpoint\<close>

text \<open>\<^verbatim>\<open>err.Error()\<close>: the text of an error.\<close>

fun Error_text :: "err \<Rightarrow> string" where
  "Error_text ErrNotFound = ''record not found''"
| "Error_text ErrDuplicateKey = ''duplicate key''"
| "Error_text ErrEmailTaken = ''email already taken''"
| "Error_text ErrInvalidCredentials = ''invalid email or password''"
| "Error_text ErrInvalidRefreshToken = ''invalid refresh token''"
| "Error_text ErrTokenExpired = ''token has expired''"
| "Error_text ErrTokenInvalid = ''token is invalid''"
| "Error_text jwt_ErrTokenExpired = ''token is expired''"
| "Error_text jwt_ErrTokenNotValidYet = ''token is not valid yet''"
| "Error_text jwt_ErrTokenMalformed = ''token is malformed''"
| "Error_text jwt_ErrTokenUnverifiable = ''token is unverifiable''"
| "Error_text jwt_ErrTokenSignatureInvalid = ''token signature is invalid''"
| "Error_text jwt_ErrTokenInvalidClaims = ''token has invalid claims''"
| "Error_text jwt_ErrInvalidKeyType = ''key is of invalid type''"
| "Error_text gorm_ErrRecordNotFound = ''record not found''"
| "Error_text (gorm_Failure msg) = msg"
| "Error_text (s3_Failure msg) = msg"
| "Error_text (bcrypt_Failure msg) = msg"
| "Error_text (Errorf msg) = msg"
| "Error_text (Wrapf msg e) = msg @ '': '' @ Error_text e"
| "Error_text (Joined es) = concat (map (\<lambda>e. Error_text e @ '': '') es)"

text \<open>
  \<open>AuthHandler.Login\<close>.  \<open>body\<close> is the request body as \<^verbatim>\<open>ShouldBindJSON\<close>
  binds it (\<open>None\<close> when it does not bind), \<open>validate\<close> the validator of the
  input's tags (\<open>None\<close> when the input passes).
\<close>

definition AuthHandler_Login ::
    "UserService \<Rightarrow> bcrypt \<Rightarrow> (LoginInput \<Rightarrow> string option) \<Rightarrow> (nat \<Rightarrow> int) \<Rightarrow> world
       \<Rightarrow> LoginInput option \<Rightarrow> Context \<Rightarrow> Context outcome \<times> world" where
  "AuthHandler_Login userSvc bc validate now w body c =
     (case body of
        None \<Rightarrow> (Return (BadRequest c ''invalid request body''), w)
      | Some inp \<Rightarrow>
          (case validate inp of
             Some msg \<Rightarrow> (Return (BadRequest c msg), w)
           | None \<Rightarrow>
               (case Login userSvc bc now w inp of
                  (Panic p, w') \<Rightarrow> (Panic p, w')
                | (Return (Inl e), w') \<Rightarrow>
                    if errors_Is e ErrInvalidCredentials
                    then (Return (Unauthorized c (Error_text e)), w')
                    else (Return (InternalError c), w')
                | (Return (Inr (user, pair)), w') \<Rightarrow>
                    (Return (OK c (LoginData (User.ID user) (User.Email user)
                                     (User.Username user) (User.Role user)
                                     (accessToken pair) (refreshToken pair))), w'))))"

section \<open>Example values\<close>

text \<open>
  A stand-in for the bcrypt package in the examples (the hash of a password
  is the password behind a prefix), a manager with the default lifetimes of
  15 minutes and 7 days, a store holding one user, and a clock.
\<close>

definition example_bcrypt :: bcrypt where
  "example_bcrypt =
     \<lparr>GenerateFromPassword = (\<lambda>password cost. Inr (''$2a$'' @ password)),
      CompareHashAndPassword = (\<lambda>hashedPassword password.
         if hashedPassword = ''$2a$'' @ password then None
         else Some (bcrypt_Failure ''hashedPassword is not the hash of the given password''))\<rparr>"

definition example_manager :: Manager where
  "example_manager = NewManager ''k1'' 900000000000 604800000000000"

definition example_service :: UserService where
  "example_service =
     \<lparr>UserService.repo = NewUserRepository, jwtManager = example_manager, bcryptCost = 12\<rparr>"

definition alice :: User where
  "alice = \<lparr>User.ID = ''u1'', User.Email = ''alice@example.com'',
            User.PasswordHash = ''$2a$correct horse'', User.Username = ''alice'',
            User.Role = ''user'', User.DeletedAt = None\<rparr>"

definition example_world :: world where
  "example_world =
     \<lparr>db = \<lparr>users = [alice], attachments = [], failure = None\<rparr>,
      s3 = \<lparr>objects = Map.empty, putFailure = None, deleteFailure = None\<rparr>,
      trace = []\<rparr>"

definition example_clock :: "nat \<Rightarrow> int" where
  "example_clock i = 1500000000 + int i"

text \<open>The store of the examples while the relational store is failing.\<close>

definition failing_world :: world where
  "failing_world =
     example_world\<lparr>db := (db example_world)\<lparr>failure := Some ''connection refused''\<rparr>\<rparr>"

text \<open>An implementation of the interface that reports every failure as it is, with no row.\<close>

definition unreachable_repository :: UserRepository where
  "unreachable_repository =
     \<lparr>Create = (\<lambda>w fresh user. ((user, Some (Errorf ''connection refused'')), w)),
      FindByID = (\<lambda>w i. ((None, Some (Errorf ''connection refused'')), w)),
      FindByEmail = (\<lambda>w email. ((None, Some (Errorf ''connection refused'')), w))\<rparr>"

text \<open>
  A reading of token strings under which \<^verbatim>\<open>r1\<close> spells the refresh token the
  example manager issues for \<^verbatim>\<open>u1\<close>, and a request with a given
  \<^verbatim>\<open>Authorization\<close> header.
\<close>

definition refresh_wire :: "string \<Rightarrow> token" where
  "refresh_wire s =
     (if s = ''r1''
      then (case GenerateRefreshToken example_manager 1000000000 ''u1'' ''user'' of
              Inr tok \<Rightarrow> tok
            | Inl _ \<Rightarrow> Malformed s)
      else Malformed s)"

definition example_request :: "string \<Rightarrow> Context" where
  "example_request authorization =
     \<lparr>requestHeader = (\<lambda>key. if key = ''Authorization'' then authorization else []),
      Keys = Map.empty, written = None, aborted = False, nextCalled = False\<rparr>"

text \<open>
  The upload of the specification's scenario: the file \<^verbatim>\<open>hello.txt\<close> of 10
  bytes for the note \<^verbatim>\<open>n1\<close>; a world whose relational store fails and whose
  object store accepts the put and refuses the delete; and a world whose
  object store refuses the put.
\<close>

definition example_attachments :: AttachmentService where
  "example_attachments = NewAttachmentService attachmentRepo_Create \<lparr>bucket = ''notes''\<rparr>"

definition hello_upload :: FileUploadInput where
  "hello_upload =
     \<lparr>NoteID = ''n1'', MessageID = ''m1'', File = ''0123456789'',
      FileHeader = \<lparr>Filename = ''hello.txt'', FileHeader.Size = 10, Header = (\<lambda>_. [])\<rparr>\<rparr>"

definition metadata_failing_world :: world where
  "metadata_failing_world =
     \<lparr>db = \<lparr>users = [alice], attachments = [], failure = Some ''connection refused''\<rparr>,
      s3 = \<lparr>objects = Map.empty, putFailure = None, deleteFailure = Some ''access denied''\<rparr>,
      trace = []\<rparr>"

definition upload_failing_world :: world where
  "upload_failing_world =
     \<lparr>db = \<lparr>users = [alice], attachments = [], failure = Some ''connection refused''\<rparr>,
      s3 = \<lparr>objects = Map.empty, putFailure = Some ''slow down'', deleteFailure = None\<rparr>,
      trace = []\<rparr>"

definition bob :: RegisterInput where
  "bob = \<lparr>RegisterInput.Email = ''bob@example.com'', RegisterInput.Username = ''bob'',
          RegisterInput.Password = ''12345678''\<rparr>"

section \<open>Properties of the token manager\<close>

lemma generate_eq:
  "generate m now userID role tt ttl =
     Inr (Compact ''HS256''
            \<lparr>ExpiresAt = Some (NewNumericDate (now + ttl)), NotBefore = None,
             IssuedAt = Some (NewNumericDate now), UserID = userID, Role = role, TokenType = tt\<rparr>
            (MAC ''HS256'' (secret m) ''HS256''
            \<lparr>ExpiresAt = Some (NewNumericDate (now + ttl)), NotBefore = None,
             IssuedAt = Some (NewNumericDate now), UserID = userID, Role = role, TokenType = tt\<rparr>))"
  by (simp add: generate_def NewWithClaims_def SigningMethodHS256_def SignedString_def Let_def)

lemma Parse_signed_HS256:
  "Parse m now (Compact ''HS256'' c (MAC ''HS256'' (secret m) ''HS256'' c)) =
     (if Validate now c = [] then Inr c
      else if jwt_ErrTokenExpired \<in> set (Validate now c) then Inl jwt_ErrTokenExpired
      else Inl ErrTokenInvalid)"
  by (auto simp add: Parse_def ParseWithClaims_def GetSigningMethod_def keyFunc_def Verify_def
      Validate_def split: list.splits option.splits if_splits)





section \<open>Properties of the services of users\<close>

lemma userRepo_FindByEmail_cases:
  "userRepo_FindByEmail w email =
     (case failure (db w) of
        Some msg \<Rightarrow> ((Some zero_User, None), record_event w (UserFindByEmail email))
      | None \<Rightarrow>
         (case find (\<lambda>r. User.DeletedAt r = None \<and> User.Email r = email) (users (db w)) of
            None \<Rightarrow> ((None, Some ErrNotFound), record_event w (UserFindByEmail email))
          | Some r \<Rightarrow> ((Some r, None), record_event w (UserFindByEmail email))))"
  by (simp add: userRepo_FindByEmail_def First_User_def errors_Is_opt_def split: option.splits)

lemma userRepo_FindByID_cases:
  "userRepo_FindByID w i =
     (case failure (db w) of
        Some msg \<Rightarrow> ((Some zero_User, None), record_event w (UserFindByID i))
      | None \<Rightarrow>
         (case find (\<lambda>r. User.DeletedAt r = None \<and> User.ID r = i) (users (db w)) of
            None \<Rightarrow> ((None, Some ErrNotFound), record_event w (UserFindByID i))
          | Some r \<Rightarrow> ((Some r, None), record_event w (UserFindByID i))))"
  by (simp add: userRepo_FindByID_def First_User_def errors_Is_opt_def split: option.splits)

lemma FindByEmail_NewUserRepository:
  "FindByEmail NewUserRepository = userRepo_FindByEmail"
  by (simp add: NewUserRepository_def)

text \<open>
  C1.  The two failures of a login do not return the same error.  With one
  user in the store, a login under an unknown email returns the repository's
  \<^verbatim>\<open>ErrNotFound\<close>, and a login with that user's email and a wrong password
  returns \<^verbatim>\<open>ErrInvalidCredentials\<close>; the endpoint answers the first with 500
  and the second with 401.
\<close>

theorem Login_unknown_email_differs:
  "fst (Login example_service example_bcrypt example_clock example_world
          \<lparr>Email = ''nobody@example.com'', Password = ''correct horse''\<rparr>)
     = Return (Inl ErrNotFound)
   \<and> fst (Login example_service example_bcrypt example_clock example_world
          \<lparr>Email = ''alice@example.com'', Password = ''wrong''\<rparr>)
     = Return (Inl ErrInvalidCredentials)
   \<and> fst (AuthHandler_Login example_service example_bcrypt (\<lambda>_. None) example_clock
            example_world (Some \<lparr>Email = ''nobody@example.com'', Password = ''correct horse''\<rparr>) c)
     = Return (c\<lparr>written := Some (500, \<lparr>Success = False, Data = NoData,
                                          Error = ''internal server error''\<rparr>)\<rparr>)
   \<and> fst (AuthHandler_Login example_service example_bcrypt (\<lambda>_. None) example_clock
            example_world (Some \<lparr>Email = ''alice@example.com'', Password = ''wrong''\<rparr>) c)
     = Return (c\<lparr>written := Some (401, \<lparr>Success = False, Data = NoData,
                                          Error = ''invalid email or password''\<rparr>)\<rparr>)"
  by (simp add: Login_def Login_compare_def example_service_def example_world_def alice_def
      userRepo_FindByEmail_cases example_bcrypt_def bcrypt_CompareHashAndPassword_def
      AuthHandler_Login_def InternalError_def Unauthorized_def JSON_def
      StatusInternalServerError_def StatusUnauthorized_def FindByEmail_NewUserRepository)

lemma issueTokenPair_Inr:
  "\<exists>a r. GenerateAccessToken (jwtManager s) tA userID role = Inr a
      \<and> GenerateRefreshToken (jwtManager s) tR userID role = Inr r
      \<and> issueTokenPair s tA tR userID role = Inr \<lparr>accessToken = a, refreshToken = r\<rparr>"
  by (simp add: issueTokenPair_def GenerateAccessToken_def GenerateRefreshToken_def generate_eq)

lemma Login_compare_trace:
  "trace (snd (Login_compare s bc now w inp (Some u)))
     = trace w @ [BcryptCompareHashAndPassword (User.PasswordHash u) (LoginInput.Password inp)]"
  by (simp add: Login_compare_def bcrypt_CompareHashAndPassword_def record_event_def
      split: option.splits sum.splits)

text \<open>
  C2.  A refresh does not succeed for an existing user.  The store holds the
  user \<^verbatim>\<open>u1\<close> (found by \<open>FindByID\<close>), and the manager's own refresh token for
  \<^verbatim>\<open>u1\<close> parses, unexpired, with the kind \<open>refresh\<close>; \<open>RefreshTokens\<close> then
  looks the subject up as an email, finds no row, and returns
  \<^verbatim>\<open>ErrInvalidCredentials\<close> instead of a token pair.
\<close>

theorem RefreshTokens_existing_user_fails:
  "\<exists>tok c. GenerateRefreshToken example_manager 1400000000 ''u1'' ''user'' = Inr tok
     \<and> Parse example_manager (example_clock 0) tok = Inr c \<and> UserID c = User.ID alice
     \<and> TokenType c = RefreshToken
     \<and> fst (userRepo_FindByID example_world ''u1'') = (Some alice, None)
     \<and> fst (RefreshTokens example_service example_clock example_world tok)
         = Return (Inl ErrInvalidCredentials)"
proof -
  define c where "c = \<lparr>ExpiresAt = Some 604801000000000, NotBefore = None,
    IssuedAt = Some 1000000000, UserID = ''u1'', Claims.Role = ''user'', TokenType = RefreshToken\<rparr>"
  define tok where "tok = Compact ''HS256'' c (MAC ''HS256'' ''k1'' ''HS256'' c)"
  have g: "GenerateRefreshToken example_manager 1400000000 ''u1'' ''user'' = Inr tok"
    by (simp add: GenerateRefreshToken_def generate_eq example_manager_def NewManager_def
        NewNumericDate_def second_def tok_def c_def)
  have "Parse example_manager (example_clock 0)
          (Compact ''HS256'' c (MAC ''HS256'' (secret example_manager) ''HS256'' c)) = Inr c"
    unfolding Parse_signed_HS256 by (simp add: Validate_def c_def example_clock_def)
  then have p: "Parse example_manager (example_clock 0) tok = Inr c"
    by (simp add: tok_def example_manager_def NewManager_def)
  have i: "fst (userRepo_FindByID example_world ''u1'') = (Some alice, None)"
    by (simp add: userRepo_FindByID_cases example_world_def alice_def)
  have e: "userRepo_FindByEmail example_world ''u1''
      = ((None, Some ErrNotFound), record_event example_world (UserFindByEmail ''u1''))"
    by (simp add: userRepo_FindByEmail_cases example_world_def alice_def)
  have r: "fst (RefreshTokens example_service example_clock example_world tok)
         = Return (Inl ErrInvalidCredentials)"
    using p e
    by (simp add: RefreshTokens_def example_service_def c_def FindByEmail_NewUserRepository)
  show ?thesis
    using g p i r by (intro exI [of _ tok] exI [of _ c]) (simp add: c_def alice_def)
qed

text \<open>
  C8, as the claim states it, fails: when the lookup reports that there is
  no such user, \<open>Login\<close> returns the lookup's error and the comparison is not
  invoked (the only call made is the lookup).
\<close>

theorem Login_not_found_returns_before_comparison:
  "Login example_service example_bcrypt example_clock example_world
       \<lparr>Email = ''mallory@example.com'', Password = ''guess''\<rparr>
     = (Return (Inl ErrNotFound),
        example_world\<lparr>trace := [UserFindByEmail ''mallory@example.com'']\<rparr>)"
  by (simp add: Login_def example_service_def example_world_def alice_def
      userRepo_FindByEmail_cases FindByEmail_NewUserRepository record_event_def)

text \<open>
  C8, amended.  Whatever the repository, when the lookup's error is
  \<^verbatim>\<open>ErrNotFound\<close>, \<open>Login\<close> returns that error before any comparison; when it
  is any other error, or none, \<open>Login\<close> goes on to the comparison: it panics on
  a nil user, and otherwise calls the comparison on the hash of the record
  returned.  No lookup failure is answered with \<^verbatim>\<open>ErrInvalidCredentials\<close>
  before the comparison.
\<close>

theorem Login_comparison_after_lookup:
  assumes "FindByEmail (UserService.repo s) w (LoginInput.Email inp) = ((user, e), w1)"
  shows "(errors_Is_opt e ErrNotFound \<longrightarrow>
            (\<exists>e'. e = Some e' \<and> Login s bc now w inp = (Return (Inl e'), w1)))
       \<and> (\<not> errors_Is_opt e ErrNotFound \<longrightarrow>
            Login s bc now w inp = Login_compare s bc now w1 inp user)
       \<and> (\<not> errors_Is_opt e ErrNotFound \<and> user = None \<longrightarrow>
            Login s bc now w inp = (Panic nil_dereference, w1))
       \<and> (\<forall>u. \<not> errors_Is_opt e ErrNotFound \<and> user = Some u \<longrightarrow>
            trace (snd (Login s bc now w inp))
              = trace w1 @ [BcryptCompareHashAndPassword (User.PasswordHash u)
                              (LoginInput.Password inp)])"
proof -
  have a: "errors_Is_opt e ErrNotFound \<longrightarrow>
            (\<exists>e'. e = Some e' \<and> Login s bc now w inp = (Return (Inl e'), w1))"
    using assms by (cases e) (simp_all add: Login_def errors_Is_opt_def)
  have b: "\<not> errors_Is_opt e ErrNotFound \<longrightarrow>
            Login s bc now w inp = Login_compare s bc now w1 inp user"
    using assms by (cases e) (simp_all add: Login_def errors_Is_opt_def)
  have c: "Login_compare s bc now w1 inp None = (Panic nil_dereference, w1)"
    by (simp add: Login_compare_def)
  show ?thesis
    using a b c Login_compare_trace [of s bc now w1 inp] by auto
qed

theorem Login_comparison_after_lookup_witness:
  "FindByEmail unreachable_repository example_world ''alice@example.com''
      = ((None, Some (Errorf ''connection refused'')), example_world)
   \<and> \<not> errors_Is_opt (Some (Errorf ''connection refused'')) ErrNotFound
   \<and> Login (example_service\<lparr>UserService.repo := unreachable_repository\<rparr>) example_bcrypt
        example_clock example_world \<lparr>Email = ''alice@example.com'', Password = ''correct horse''\<rparr>
      = (Panic nil_dereference, example_world)"
proof -
  have f: "FindByEmail unreachable_repository example_world ''alice@example.com''
      = ((None, Some (Errorf ''connection refused'')), example_world)"
    by (simp add: unreachable_repository_def)
  then have f': "FindByEmail
        (UserService.repo (example_service\<lparr>UserService.repo := unreachable_repository\<rparr>))
        example_world
        (LoginInput.Email \<lparr>Email = ''alice@example.com'', Password = ''correct horse''\<rparr>)
      = ((None, Some (Errorf ''connection refused'')), example_world)"
    by simp
  have n: "\<not> errors_Is_opt (Some (Errorf ''connection refused'')) ErrNotFound"
    by (simp add: errors_Is_opt_def)
  from Login_comparison_after_lookup [OF f', of example_bcrypt example_clock] n
  have p: "Login (example_service\<lparr>UserService.repo := unreachable_repository\<rparr>) example_bcrypt
        example_clock example_world \<lparr>Email = ''alice@example.com'', Password = ''correct horse''\<rparr>
      = (Panic nil_dereference, example_world)"
    by blast
  show ?thesis
    using f n p by blast
qed

text \<open>
  With the GORM-backed repository the lookup returns a nil user only
  together with \<^verbatim>\<open>ErrNotFound\<close>, so \<open>Login\<close> never panics there.
\<close>

lemma Login_userRepo_never_panics:
  "UserService.repo s = NewUserRepository \<Longrightarrow> fst (Login s bc now w inp) \<noteq> Panic p"
  by (simp add: Login_def Login_compare_def FindByEmail_NewUserRepository
      userRepo_FindByEmail_cases bcrypt_CompareHashAndPassword_def
      split: option.splits sum.splits prod.splits)



text \<open>
  C10.  While the store fails with an error other than record-not-found,
  \<open>FindByID\<close> and \<open>FindByEmail\<close> return the zero-valued user and a nil error.
  Their callers go on as if that user had been found: a registration is
  refused as a duplicate, a login compares the password against the zero
  user's (empty) hash, and a refresh issues a token pair for the zero user's
  empty id and role.
\<close>

theorem store_failure_hidden:
  assumes "failure (db w) = Some msg"
  shows "userRepo_FindByID w i = ((Some zero_User, None), record_event w (UserFindByID i))
       \<and> userRepo_FindByEmail w email
           = ((Some zero_User, None), record_event w (UserFindByEmail email))
       \<and> (UserService.repo s = NewUserRepository \<longrightarrow>
            fst (Register s bc w fresh rinp) = Inl ErrEmailTaken
          \<and> Login s bc now w linp
              = Login_compare s bc now (record_event w (UserFindByEmail (LoginInput.Email linp)))
                  linp (Some zero_User)
          \<and> (\<forall>tok c. Parse (jwtManager s) (now 0) tok = Inr c \<and> TokenType c = RefreshToken \<longrightarrow>
                fst (RefreshTokens s now w tok)
                  = Return (issueTokenPair s (now 1) (now 2) (User.ID zero_User)
                              (User.Role zero_User))))"
  using assms
  by (auto simp add: userRepo_FindByID_cases userRepo_FindByEmail_cases Register_def Login_def
      RefreshTokens_def FindByEmail_NewUserRepository split: sum.splits)

theorem store_failure_hidden_witness:
  "failure (db failing_world) = Some ''connection refused''
   \<and> fst (userRepo_FindByID failing_world ''u1'') = (Some zero_User, None)
   \<and> fst (userRepo_FindByEmail failing_world ''alice@example.com'') = (Some zero_User, None)
   \<and> fst (Register example_service example_bcrypt failing_world ''u2'' bob) = Inl ErrEmailTaken
   \<and> fst (Login example_service example_bcrypt example_clock failing_world
             \<lparr>Email = ''alice@example.com'', Password = ''correct horse''\<rparr>)
       = Return (Inl ErrInvalidCredentials)"
proof -
  have f: "failure (db failing_world) = Some ''connection refused''"
    by (simp add: failing_world_def)
  have r: "UserService.repo example_service = NewUserRepository"
    by (simp add: example_service_def)
  show ?thesis
    using f r store_failure_hidden [OF f, of "''u1''" "''alice@example.com''" example_service
        example_bcrypt "''u2''" bob example_clock
        "\<lparr>Email = ''alice@example.com'', Password = ''correct horse''\<rparr>"]
    by (simp add: Login_compare_def bcrypt_CompareHashAndPassword_def example_bcrypt_def
        zero_User_def)
qed

section \<open>Properties of the middleware\<close>

lemma Parse_Compact_Inr:
  "Parse m now (Compact alg cl sg) = Inr c \<Longrightarrow> c = cl"
  by (auto simp add: Parse_def ParseWithClaims_def
      split: option.splits sum.splits if_splits list.splits)

lemma SplitN2_space:
  "CHR '' '' \<notin> set a \<Longrightarrow> SplitN2 (a @ CHR '' '' # b) = [a, b]"
  by (induction a) (auto simp add: SplitN2_def)

lemma Abort_Unauthorized:
  "Abort (Unauthorized c msg)
     = c\<lparr>written := Some (401, \<lparr>Success = False, Data = NoData, Error = msg\<rparr>), aborted := True\<rparr>"
  by (simp add: Abort_def Unauthorized_def JSON_def StatusUnauthorized_def)

text \<open>
  C6.  A request whose \<^verbatim>\<open>Authorization\<close> header presents, after any scheme
  word, a token whose claims are of the kind \<open>refresh\<close> is answered 401 and
  aborted, whatever the token's signature and expiry and whatever the
  instant; no key is set on the context and the chain does not go on.
\<close>

theorem Authenticate_rejects_refresh_token:
  assumes "GetHeader c ''Authorization'' = scheme @ '' '' @ s"
    and "CHR '' '' \<notin> set scheme"
    and "wire s = Compact alg claims sg"
    and "TokenType claims = RefreshToken"
  shows "(\<exists>msg. written (Authenticate m wire now c)
                  = Some (401, \<lparr>Success = False, Data = NoData, Error = msg\<rparr>))
       \<and> aborted (Authenticate m wire now c)
       \<and> Keys (Authenticate m wire now c) = Keys c
       \<and> nextCalled (Authenticate m wire now c) = nextCalled c"
proof -
  have parts: "SplitN2 (scheme @ '' '' @ s) = [scheme, s]"
    using assms(2) SplitN2_space [of scheme s] by simp
  have kind: "TokenType claims \<noteq> AccessToken"
    using assms(4) by (simp add: RefreshToken_def AccessToken_def)
  show ?thesis
  proof (cases "Parse m now (Compact alg claims sg)")
    case (Inl e)
    then show ?thesis
      using assms(1,3) parts
      by (simp add: Authenticate_def Let_def Abort_Unauthorized)
  next
    case (Inr c')
    then have "c' = claims" by (rule Parse_Compact_Inr)
    with Inr kind show ?thesis
      using assms(1,3) parts
      by (simp add: Authenticate_def Let_def Abort_Unauthorized)
  qed
qed

text \<open>
  The manager's own refresh token, presented as a bearer token 1 second
  after its issue: it parses (the signature is valid, the expiry is 7 days
  away) and the request is refused.
\<close>

theorem Authenticate_rejects_refresh_token_witness:
  "GetHeader (example_request ''Bearer r1'') ''Authorization'' = ''Bearer'' @ '' '' @ ''r1''
   \<and> CHR '' '' \<notin> set ''Bearer''
   \<and> (\<exists>sg. refresh_wire ''r1''
        = Compact ''HS256'' \<lparr>ExpiresAt = Some 604801000000000, NotBefore = None,
             IssuedAt = Some 1000000000, UserID = ''u1'', Claims.Role = ''user'',
             TokenType = RefreshToken\<rparr> sg)
   \<and> (\<exists>c. Parse example_manager 2000000000 (refresh_wire ''r1'') = Inr c)
   \<and> (\<exists>msg. written (Authenticate example_manager refresh_wire 2000000000
                       (example_request ''Bearer r1''))
               = Some (401, \<lparr>Success = False, Data = NoData, Error = msg\<rparr>))
   \<and> aborted (Authenticate example_manager refresh_wire 2000000000 (example_request ''Bearer r1''))
   \<and> Keys (Authenticate example_manager refresh_wire 2000000000 (example_request ''Bearer r1''))
       = Map.empty
   \<and> \<not> nextCalled (Authenticate example_manager refresh_wire 2000000000
                      (example_request ''Bearer r1''))"
proof -
  define cl where "cl = \<lparr>ExpiresAt = Some 604801000000000, NotBefore = None,
             IssuedAt = Some 1000000000, UserID = ''u1'', Claims.Role = ''user'',
             TokenType = RefreshToken\<rparr>"
  have h: "GetHeader (example_request ''Bearer r1'') ''Authorization''
      = ''Bearer'' @ '' '' @ ''r1''"
    by (simp add: GetHeader_def example_request_def)
  have n: "CHR '' '' \<notin> set ''Bearer''" by simp
  have w: "refresh_wire ''r1''
      = Compact ''HS256'' cl (MAC ''HS256'' (secret example_manager) ''HS256'' cl)"
    by (simp add: refresh_wire_def GenerateRefreshToken_def generate_eq example_manager_def
        NewManager_def NewNumericDate_def second_def cl_def)
  have k: "TokenType cl = RefreshToken" by (simp add: cl_def)
  have p: "Parse example_manager 2000000000 (refresh_wire ''r1'') = Inr cl"
    unfolding w Parse_signed_HS256 by (simp add: Validate_def cl_def)
  have e: "Keys (example_request ''Bearer r1'') = Map.empty"
      "\<not> nextCalled (example_request ''Bearer r1'')"
    by (simp_all add: example_request_def)
  show ?thesis
    using Authenticate_rejects_refresh_token [where wire = refresh_wire and s = "''r1''"
          and m = example_manager and now = 2000000000, OF h n w k]
      h n w p e unfolding cl_def by auto
qed

section \<open>Properties of the upload\<close>

lemma Upload_cases:
  "Upload c w inp =
     (case putFailure (s3 w) of
        Some msg \<Rightarrow>
          (Inl (Wrapf ''s3 PutObject'' (s3_Failure msg)),
           record_event w (S3PutObject (Key inp) (Some (s3_Failure msg))))
      | None \<Rightarrow>
          (Inr \<lparr>URL = ''https://'' @ bucket c @ ''.s3.amazonaws.com/'' @ Key inp,
                PresignedURL = []\<rparr>,
           record_event
             (w\<lparr>s3 := (s3 w)\<lparr>objects := (objects (s3 w))(Key inp \<mapsto> (Body inp, ContentType inp))\<rparr>\<rparr>)
             (S3PutObject (Key inp) None)))"
  by (simp add: Upload_def PutObject_def split: option.splits)

lemma Delete_trace:
  "trace (snd (Delete c w key))
     = trace w @ [S3DeleteObject key (map_option s3_Failure (deleteFailure (s3 w)))]"
  by (simp add: Delete_def DeleteObject_def record_event_def split: option.splits)

lemma Delete_db:
  "db (snd (Delete c w key)) = db w"
  by (simp add: Delete_def DeleteObject_def record_event_def split: option.splits)

lemma Delete_objects:
  "deleteFailure (s3 w) = None \<Longrightarrow> objects (s3 (snd (Delete c w key))) key = None"
  by (simp add: Delete_def DeleteObject_def record_event_def)

lemma attachmentRepo_Create_cases:
  "attachmentRepo_Create w fresh a =
     (let a' = Attachment_BeforeCreate fresh a in
      case failure (db w) of
        Some msg \<Rightarrow> ((a', Some (gorm_Failure msg)),
                      record_event w (AttachmentCreate a' (Some (gorm_Failure msg))))
      | None \<Rightarrow>
          if \<exists>r \<in> set (attachments (db w)). Attachment.ID r = Attachment.ID a'
          then ((a', Some (gorm_Failure ''duplicate key value violates unique constraint'')),
                record_event w (AttachmentCreate a'
                  (Some (gorm_Failure ''duplicate key value violates unique constraint''))))
          else ((a', None),
                record_event (w\<lparr>db := (db w)\<lparr>attachments := attachments (db w) @ [a']\<rparr>\<rparr>)
                  (AttachmentCreate a' None)))"
  by (simp add: attachmentRepo_Create_def Create_Attachment_def Let_def split: option.splits)

lemma s3Key_hello_upload:
  "s3Key hello_upload 1700000000000 = ''attachments/n1/1700000000000_hello.txt''"
  by (simp add: s3Key_def hello_upload_def FormatInt_def safeName_def Base_def ReplaceAll_def
      digits.simps)

text \<open>
  C3.  When the object store accepts the upload and the write of the
  attachment's row fails (the relational store is failing, or the id drawn
  is taken), \<open>Create\<close> returns the error of that write, wrapped; the calls made
  are the put, the failed write, and a delete of the key that was put,
  whether that delete succeeds or fails; the relational store is unchanged,
  so no row of the attachment is visible; and when the delete succeeds no
  object is left under the key.
\<close>

theorem Create_metadata_failure:
  assumes "AttachmentService.repo s = attachmentRepo_Create"
    and "putFailure (s3 w) = None"
    and "failure (db w) = Some msg
         \<or> (failure (db w) = None \<and> (\<exists>r \<in> set (attachments (db w)). Attachment.ID r = fresh)
             \<and> msg = ''duplicate key value violates unique constraint'')"
  shows "\<exists>att. fst (AttachmentService_Create s unixMilli fresh w inp)
                 = Inl (Wrapf ''saving attachment metadata'' (gorm_Failure msg))
       \<and> trace (snd (AttachmentService_Create s unixMilli fresh w inp))
           = trace w @ [S3PutObject (s3Key inp unixMilli) None,
                        AttachmentCreate att (Some (gorm_Failure msg)),
                        S3DeleteObject (s3Key inp unixMilli)
                          (map_option s3_Failure (deleteFailure (s3 w)))]
       \<and> S3Key att = s3Key inp unixMilli
       \<and> db (snd (AttachmentService_Create s unixMilli fresh w inp)) = db w
       \<and> (deleteFailure (s3 w) = None \<longrightarrow>
            objects (s3 (snd (AttachmentService_Create s unixMilli fresh w inp)))
              (s3Key inp unixMilli) = None)"
  using assms
  by (auto simp add: AttachmentService_Create_def Upload_cases Let_def split_beta
      attachmentRepo_Create_cases record_event_def Delete_trace Delete_db Delete_objects
      Attachment_BeforeCreate_def newUUID_def)

text \<open>
  The scenario of the specification, with a compensating delete that fails:
  the error returned is still the one of the metadata write.
\<close>

theorem Create_metadata_failure_witness:
  "AttachmentService.repo example_attachments = attachmentRepo_Create
   \<and> putFailure (s3 metadata_failing_world) = None
   \<and> failure (db metadata_failing_world) = Some ''connection refused''
   \<and> deleteFailure (s3 metadata_failing_world) = Some ''access denied''
   \<and> s3Key hello_upload 1700000000000 = ''attachments/n1/1700000000000_hello.txt''
   \<and> (\<exists>att. fst (AttachmentService_Create example_attachments 1700000000000 ''a1''
                    metadata_failing_world hello_upload)
                 = Inl (Wrapf ''saving attachment metadata'' (gorm_Failure ''connection refused''))
       \<and> trace (snd (AttachmentService_Create example_attachments 1700000000000 ''a1''
                        metadata_failing_world hello_upload))
           = [S3PutObject ''attachments/n1/1700000000000_hello.txt'' None,
              AttachmentCreate att (Some (gorm_Failure ''connection refused'')),
              S3DeleteObject ''attachments/n1/1700000000000_hello.txt''
                (Some (s3_Failure ''access denied''))]
       \<and> attachments (db (snd (AttachmentService_Create example_attachments 1700000000000 ''a1''
                        metadata_failing_world hello_upload))) = [])"
proof -
  have r: "AttachmentService.repo example_attachments = attachmentRepo_Create"
    by (simp add: example_attachments_def NewAttachmentService_def)
  have p: "putFailure (s3 metadata_failing_world) = None"
    by (simp add: metadata_failing_world_def)
  have f: "failure (db metadata_failing_world) = Some ''connection refused''"
    by (simp add: metadata_failing_world_def)
  have d: "deleteFailure (s3 metadata_failing_world) = Some ''access denied''"
    by (simp add: metadata_failing_world_def)
  have t: "trace metadata_failing_world = []" "attachments (db metadata_failing_world) = []"
    by (simp_all add: metadata_failing_world_def)
  show ?thesis
    using Create_metadata_failure [OF r p disjI1 [OF f], of 1700000000000 "''a1''" hello_upload]
      r p f d t
    unfolding s3Key_hello_upload by auto
qed

text \<open>
  C5.  Every execution of \<open>Create\<close> adds to the trace one of three sequences
  of calls: a failed put alone (the operation fails with the upload's error
  and the relational store is untouched); a successful put followed by a
  successful write of the row; or a successful put, a failed write of the
  row, and then the delete of the key that was put.
\<close>

theorem Create_call_order:
  assumes "AttachmentService.repo s = attachmentRepo_Create"
  shows "\<exists>a e d url.
      (trace (snd (AttachmentService_Create s unixMilli fresh w inp))
         = trace w @ [S3PutObject (s3Key inp unixMilli) (Some e)]
       \<and> fst (AttachmentService_Create s unixMilli fresh w inp)
           = Inl (Wrapf ''uploading attachment to S3'' (Wrapf ''s3 PutObject'' e))
       \<and> db (snd (AttachmentService_Create s unixMilli fresh w inp)) = db w)
    \<or> (trace (snd (AttachmentService_Create s unixMilli fresh w inp))
         = trace w @ [S3PutObject (s3Key inp unixMilli) None, AttachmentCreate a None]
       \<and> fst (AttachmentService_Create s unixMilli fresh w inp) = Inr (a, url))
    \<or> (trace (snd (AttachmentService_Create s unixMilli fresh w inp))
         = trace w @ [S3PutObject (s3Key inp unixMilli) None, AttachmentCreate a (Some e),
                      S3DeleteObject (s3Key inp unixMilli) d]
       \<and> fst (AttachmentService_Create s unixMilli fresh w inp)
           = Inl (Wrapf ''saving attachment metadata'' e))"
proof (cases "putFailure (s3 w)")
  case (Some msg)
  then show ?thesis
    using assms
    by (simp add: AttachmentService_Create_def Upload_cases record_event_def)
next
  case None
  show ?thesis
    using assms None
    by (auto simp add: AttachmentService_Create_def Upload_cases Let_def split_beta
        attachmentRepo_Create_cases record_event_def Delete_trace split: option.splits)
qed

text \<open>
  An upload the object store refuses, while the relational store is failing
  too: the put is the only call made.
\<close>

theorem Create_call_order_witness:
  "AttachmentService.repo example_attachments = attachmentRepo_Create
   \<and> AttachmentService_Create example_attachments 1700000000000 ''a1'' upload_failing_world
        hello_upload
      = (Inl (Wrapf ''uploading attachment to S3''
                (Wrapf ''s3 PutObject'' (s3_Failure ''slow down''))),
         upload_failing_world
           \<lparr>trace := [S3PutObject ''attachments/n1/1700000000000_hello.txt''
                         (Some (s3_Failure ''slow down''))]\<rparr>)"
proof -
  have r: "AttachmentService.repo example_attachments = attachmentRepo_Create"
    by (simp add: example_attachments_def NewAttachmentService_def)
  have "AttachmentService_Create example_attachments 1700000000000 ''a1'' upload_failing_world
        hello_upload
      = (Inl (Wrapf ''uploading attachment to S3''
                (Wrapf ''s3 PutObject'' (s3_Failure ''slow down''))),
         upload_failing_world
           \<lparr>trace := [S3PutObject ''attachments/n1/1700000000000_hello.txt''
                         (Some (s3_Failure ''slow down''))]\<rparr>)"
    using Create_call_order [OF r, of 1700000000000 "''a1''" upload_failing_world hello_upload]
    by (simp add: AttachmentService_Create_def Upload_cases record_event_def
        s3Key_hello_upload upload_failing_world_def)
  with r show ?thesis by simp
qed

end
